theory Spec2Isabelle
  imports Complex_Main "HOL-Library.Word"
begin

section \<open>Python strings, slices and search\<close>

text \<open>
  The service in \<^verbatim>\<open>src/app/services/rag.py\<close> works on Python \<^verbatim>\<open>str\<close> values. They are
  modelled as \<^typ>\<open>string\<close>; lengths and positions are Python \<^verbatim>\<open>int\<close>s, modelled as
  \<^typ>\<open>int\<close>, because the chunker computes \<^verbatim>\<open>end - overlap\<close> and compares positions with
  \<^verbatim>\<open>-1\<close>.
\<close>

text \<open>
  A slice bound \<^verbatim>\<open>i\<close> of a sequence of length \<^verbatim>\<open>n\<close>: a negative bound counts from the
  end, and every bound is clamped to \<^verbatim>\<open>0 .. n\<close>.
\<close>

definition slice_index :: "nat \<Rightarrow> int \<Rightarrow> nat" where
  "slice_index n i = (if i < 0 then nat (max 0 (int n + i)) else min n (nat i))"

text \<open>\<^verbatim>\<open>xs[a:b]\<close>\<close>

definition slice :: "'a list \<Rightarrow> int \<Rightarrow> int \<Rightarrow> 'a list" where
  "slice xs a b =
     (let lo = slice_index (length xs) a; hi = slice_index (length xs) b
      in take (hi - lo) (drop lo xs))"

text \<open>
  \<^verbatim>\<open>s.rfind(c, a, b)\<close> for a one-character \<^verbatim>\<open>c\<close>: the highest position \<^verbatim>\<open>i\<close> with
  \<^verbatim>\<open>lo <= i < hi\<close> and \<^verbatim>\<open>s[i] == c\<close>, or \<^verbatim>\<open>-1\<close>. \<open>rfind_down\<close> scans downwards from
  \<open>hi - 1\<close>.
\<close>

fun rfind_down :: "'a list \<Rightarrow> 'a \<Rightarrow> nat \<Rightarrow> nat \<Rightarrow> int" where
  "rfind_down s c lo 0 = - 1"
| "rfind_down s c lo (Suc i) =
     (if i < lo then - 1 else if s ! i = c then int i else rfind_down s c lo i)"

definition rfind :: "'a list \<Rightarrow> 'a \<Rightarrow> int \<Rightarrow> int \<Rightarrow> int" where
  "rfind s c a b = rfind_down s c (slice_index (length s) a) (slice_index (length s) b)"

text \<open>
  \<^verbatim>\<open>str.isspace\<close> on one character, for the code points below 256: TAB, LF, VT, FF, CR,
  the separators 0x1C to 0x1F, SPACE, NEL and the no-break space.
\<close>

definition is_space :: "char \<Rightarrow> bool" where
  "is_space c = ((of_char c :: nat) \<in> {9, 10, 11, 12, 13, 28, 29, 30, 31, 32, 133, 160})"

text \<open>\<^verbatim>\<open>s.strip()\<close>\<close>

definition strip :: "string \<Rightarrow> string" where
  "strip s = rev (dropWhile is_space (rev (dropWhile is_space s)))"

section \<open>The chunker\<close>

text \<open>
  \<^verbatim>\<open>RAGService.chunk_text\<close>, lines 136 to 168. \<open>chunk_end\<close> is the body of the loop from
  \<^verbatim>\<open>end = start + chunk_size\<close> to the end of the boundary search: the cut is moved back to
  just after the last full stop, or else to the last space, when that lies past the middle of
  the window.
\<close>

definition chunk_end :: "string \<Rightarrow> int \<Rightarrow> int \<Rightarrow> int" where
  "chunk_end tx chunk_size start =
     (let end0 = start + chunk_size in
      if end0 < int (length tx) then
        (let sentence_end = rfind tx (CHR ''.'') start end0 in
         if sentence_end \<noteq> - 1 \<and> sentence_end > start + chunk_size div 2 then sentence_end + 1
         else
           (let space = rfind tx (CHR '' '') start end0 in
            if space \<noteq> - 1 \<and> space > start + chunk_size div 2 then space else end0))
      else end0)"

text \<open>
  The \<^verbatim>\<open>while start < len(text)\<close> loop. It need not end (the source has no bound on its
  iterations), so it is a partial function: \<open>None\<close> is "does not return".
\<close>

partial_function (option)
  chunk_loop :: "string \<Rightarrow> int \<Rightarrow> int \<Rightarrow> int \<Rightarrow> string list \<Rightarrow> string list option" where
  "chunk_loop tx chunk_size overlap start chunks =
     (if start < int (length tx) then
        (let e = chunk_end tx chunk_size start;
             chunk = strip (slice tx start e);
             chunks' = (if chunk \<noteq> [] then chunks @ [chunk] else chunks);
             start' = e - overlap
         in if start' \<ge> int (length tx) then Some chunks'
            else chunk_loop tx chunk_size overlap start' chunks')
      else Some chunks)"

declare chunk_loop.simps [code]

definition chunk_text :: "string \<Rightarrow> int \<Rightarrow> int \<Rightarrow> string list option" where
  "chunk_text tx chunk_size overlap =
     (if int (length tx) \<le> chunk_size then Some [tx]
      else chunk_loop tx chunk_size overlap 0 [])"

text \<open>
  The same loop, recording instead of each chunk the window \<^verbatim>\<open>(start, end)\<close> it was sliced
  from, before \<^verbatim>\<open>strip()\<close>. This is a specification device: the source keeps only the
  stripped chunks. \<open>trimmed\<close> rebuilds the chunks from the windows, and \<open>novel_spans\<close>
  concatenates, window by window, the part of the text that no earlier window reached.
\<close>

partial_function (option)
  chunk_spans_loop ::
    "string \<Rightarrow> int \<Rightarrow> int \<Rightarrow> int \<Rightarrow> (int \<times> int) list \<Rightarrow> (int \<times> int) list option" where
  "chunk_spans_loop tx chunk_size overlap start spans =
     (if start < int (length tx) then
        (let e = chunk_end tx chunk_size start;
             spans' = spans @ [(start, e)];
             start' = e - overlap
         in if start' \<ge> int (length tx) then Some spans'
            else chunk_spans_loop tx chunk_size overlap start' spans')
      else Some spans)"

declare chunk_spans_loop.simps [code]

definition chunk_spans :: "string \<Rightarrow> int \<Rightarrow> int \<Rightarrow> (int \<times> int) list option" where
  "chunk_spans tx chunk_size overlap =
     (if int (length tx) \<le> chunk_size then Some [(0, int (length tx))]
      else chunk_spans_loop tx chunk_size overlap 0 [])"

definition trimmed :: "string \<Rightarrow> (int \<times> int) list \<Rightarrow> string list" where
  "trimmed tx spans = filter (\<lambda>c. c \<noteq> []) (map (\<lambda>(s, e). strip (slice tx s e)) spans)"

fun novel_spans :: "string \<Rightarrow> int \<Rightarrow> (int \<times> int) list \<Rightarrow> string" where
  "novel_spans tx covered [] = []"
| "novel_spans tx covered ((s, e) # rest) =
     slice tx (max s covered) e @ novel_spans tx (max covered e) rest"

section \<open>Data model\<close>

text \<open>
  An exception is modelled by its message, which is all the handlers of the service read
  (\<^verbatim>\<open>str(e)\<close>). A function that can raise returns \<open>error + 'a\<close>.
\<close>

datatype error = Exception string

fun str_error :: "error \<Rightarrow> string" where
  "str_error (Exception m) = m"

type_synonym bytes = "8 word list"

type_synonym vector = "real list"

text \<open>\<^verbatim>\<open>str(n)\<close> for a Python \<^verbatim>\<open>int\<close>.\<close>

fun digits :: "nat \<Rightarrow> string" where
  "digits n =
     (if n < 10 then [''0123456789'' ! n] else digits (n div 10) @ [''0123456789'' ! (n mod 10)])"

definition str_int :: "int \<Rightarrow> string" where
  "str_int i = (if i < 0 then ''-'' @ digits (nat (- i)) else digits (nat i))"

text \<open>\<^verbatim>\<open>sep.join(xs)\<close>\<close>

fun join :: "string \<Rightarrow> string list \<Rightarrow> string" where
  "join sep [] = []"
| "join sep [x] = x"
| "join sep (x # y # ys) = x @ sep @ join sep (y # ys)"

text \<open>
  The metadata dictionary stored with every vector (lines 233 to 239), the vector record sent
  to the index (lines 230 to 240), and a match as the index returns it.
\<close>

record metadata =
  md_text :: string
  md_filename :: string
  md_user_id :: int
  md_chunk_index :: nat
  md_upload_date :: string

record index_entry =
  entry_id :: string
  entry_values :: vector
  entry_metadata :: metadata

record match =
  match_score :: real
  match_metadata :: metadata

text \<open>The dictionaries built by \<^verbatim>\<open>search_documents\<close> (lines 308 to 313).\<close>

record hit =
  hit_text :: string
  hit_filename :: string
  hit_score :: real
  hit_chunk_index :: nat

text \<open>The result dictionaries of \<^verbatim>\<open>answer_question\<close>.\<close>

record source =
  src_filename :: string
  relevance_score :: real
  preview :: string

record answer_result =
  answer :: string
  sources :: "source list"
  has_context :: bool
  chunks_used :: "nat option"

text \<open>
  The result dictionary of \<^verbatim>\<open>upload_document\<close>: \<^verbatim>\<open>"success": True\<close> with the message,
  \<^verbatim>\<open>course_id\<close>, \<^verbatim>\<open>chunks_created\<close> and \<^verbatim>\<open>text_length\<close>, or \<^verbatim>\<open>"success": False\<close> with
  the message only.
\<close>

datatype upload_result =
  UploadSuccess string int nat nat
| UploadFailure string

text \<open>The \<^verbatim>\<open>CourseMaterial\<close> row of \<^verbatim>\<open>src/app/models/course.py\<close>.\<close>

record course_material =
  cm_id :: int
  cm_course_id :: int
  cm_filename :: string
  cm_original_filename :: string
  cm_file_path :: string
  cm_file_type :: string
  cm_file_size :: nat
  cm_extracted_text :: string
  cm_is_processed :: bool
  cm_uploaded_by :: int
  cm_uploaded_at :: string
  cm_description :: string

section \<open>Collaborators and state\<close>

text \<open>
  The libraries the service calls are parameters of the model: what PyPDF2 reads from the
  bytes (the pages, each with the outcome of \<^verbatim>\<open>extract_text()\<close>), what the embedding and the
  language model return or raise, the similarity the index computes, whether an index or a
  database call raises, the random part of a chunk id, the clock, and whether printing a
  line (given as its code points) to the standard output raises.
\<close>

record env =
  pdf_pages :: "bytes \<Rightarrow> error + (error + string) list"
  embed_content :: "string \<Rightarrow> error + vector"
  similarity :: "vector \<Rightarrow> vector \<Rightarrow> real"
  upsert_fault :: "index_entry list \<Rightarrow> error option"
  query_fault :: "vector \<Rightarrow> error option"
  generate_content :: "string \<Rightarrow> error + string"
  uuid4 :: "nat \<Rightarrow> string"
  now_iso :: "nat \<Rightarrow> string"
  db_fault :: "course_material \<Rightarrow> error option"
  stdout_fault :: "nat list \<Rightarrow> error option"

text \<open>
  A call to a collaborator. The service keeps no such log; \<open>calls\<close> below records, in order,
  the calls an operation has made, so that "is never invoked" can be stated.
\<close>

datatype call =
  PdfRead
| Embed string
| Upsert nat
| Query int nat
| Generate
| DbCommit

text \<open>
  \<open>rag_index\<close> is \<^verbatim>\<open>self.index\<close>: \<open>None\<close> when the constructor could not connect
  (lines 36 and 42 to 47), else the entries the remote index holds. \<open>materials\<close> is the
  \<^verbatim>\<open>course_materials\<close> table.
\<close>

record rag_state =
  rag_index :: "index_entry list option"
  materials :: "course_material list"
  calls :: "call list"

section \<open>The vector index\<close>

text \<open>
  The vector index is a remote service; its code is not part of the repository, which only
  calls \<^verbatim>\<open>upsert\<close> (line 247) and \<^verbatim>\<open>query\<close> (lines 298 to 303) on it. Both calls are
  modelled from the contract that section 4.4 of the specification gives them.
\<close>

text \<open>
  Modelled from the spec: \<^verbatim>\<open>upsert(entries)\<close> of the index service, which "inserts or
  replaces entries by id".
\<close>

definition upsert_entry :: "index_entry \<Rightarrow> index_entry list \<Rightarrow> index_entry list" where
  "upsert_entry e idx =
     (if entry_id e \<in> set (map entry_id idx)
      then map (\<lambda>x. if entry_id x = entry_id e then e else x) idx
      else idx @ [e])"

definition index_upsert :: "index_entry list \<Rightarrow> index_entry list \<Rightarrow> index_entry list" where
  "index_upsert batch idx = foldl (\<lambda>i e. upsert_entry e i) idx batch"

definition to_match :: "env \<Rightarrow> vector \<Rightarrow> index_entry \<Rightarrow> match" where
  "to_match env v e =
     \<lparr>match_score = similarity env v (entry_values e), match_metadata = entry_metadata e\<rparr>"

text \<open>
  Modelled from the spec: \<^verbatim>\<open>query(vector, filter, top_k)\<close> of the index service, which
  "returns at most \<^verbatim>\<open>top_k\<close> matches satisfying the filter (exact-match on owner id at
  minimum), ordered by descending similarity". The filter the service gets from
  \<^verbatim>\<open>search_documents\<close> is \<^verbatim>\<open>{"user_id": {"$eq": user_id}}\<close>; a call that raises is the
  \<open>query_fault\<close> of the environment.
\<close>

definition index_query ::
  "env \<Rightarrow> index_entry list \<Rightarrow> vector \<Rightarrow> int \<Rightarrow> nat \<Rightarrow> error + match list" where
  "index_query env idx v user_id top_k =
     (case query_fault env v of
        Some e \<Rightarrow> Inl e
      | None \<Rightarrow>
          Inr (take top_k
                (sort_key (\<lambda>m. - match_score m)
                  (map (to_match env v)
                    (filter (\<lambda>e. md_user_id (entry_metadata e) = user_id) idx)))))"

section \<open>Text extraction\<close>

text \<open>
  \<^verbatim>\<open>extract_text_from_pdf\<close>, lines 118 to 134. \<open>extract_pages\<close> is the loop over the pages:
  the text of a page is appended with a newline when it is not empty, and a page whose
  extraction raises ends the loop with that exception. Every exception, also the one raised
  for a text that is empty after \<^verbatim>\<open>strip()\<close>, is raised again with a prefixed message.
\<close>

fun extract_pages :: "(error + string) list \<Rightarrow> string \<Rightarrow> error + string" where
  "extract_pages [] acc = Inr acc"
| "extract_pages (p # ps) acc =
     (case p of
        Inl e \<Rightarrow> Inl e
      | Inr page_text \<Rightarrow>
          extract_pages ps (if page_text \<noteq> [] then acc @ page_text @ ''\<newline>'' else acc))"

definition extract_text_from_pdf :: "env \<Rightarrow> bytes \<Rightarrow> error + string" where
  "extract_text_from_pdf env pdf_content =
     (case (case pdf_pages env pdf_content of
              Inl e \<Rightarrow> Inl e
            | Inr pages \<Rightarrow>
                (case extract_pages pages [] of
                   Inl e \<Rightarrow> Inl e
                 | Inr tx \<Rightarrow>
                     if strip tx = [] then Inl (Exception ''No readable text found in PDF'')
                     else Inr (strip tx))) of
        Inl e \<Rightarrow> Inl (Exception (''Error extracting text from PDF: '' @ str_error e))
      | Inr tx \<Rightarrow> Inr tx)"

section \<open>Embeddings\<close>

text \<open>
  \<^verbatim>\<open>get_embeddings\<close>, lines 170 to 188: one call per text, in order; a call that raises
  (or a reply without the \<^verbatim>\<open>'embedding'\<close> key) appends \<^verbatim>\<open>[0.0] * 768\<close> instead.
\<close>

fun get_embeddings_loop :: "env \<Rightarrow> string list \<Rightarrow> vector list \<Rightarrow> vector list" where
  "get_embeddings_loop env [] embeddings = embeddings"
| "get_embeddings_loop env (t # ts) embeddings =
     get_embeddings_loop env ts
       (embeddings @ [case embed_content env t of Inr v \<Rightarrow> v | Inl e \<Rightarrow> replicate 768 0])"

definition get_embeddings :: "env \<Rightarrow> string list \<Rightarrow> vector list" where
  "get_embeddings env texts = get_embeddings_loop env texts []"

section \<open>Ingestion\<close>

text \<open>
  The failure dictionary that the handler of \<^verbatim>\<open>upload_document\<close> returns (lines 282 to 285).
\<close>

definition upload_failure :: "error \<Rightarrow> upload_result" where
  "upload_failure e = UploadFailure (''Error processing document: '' @ str_error e)"

text \<open>
  Lines 225 to 240: the ids \<^verbatim>\<open>doc_{user_id}_{uuid4}\<close> and the vector records, one per triple
  of \<^verbatim>\<open>zip(chunk_ids, chunks, embeddings)\<close>.
\<close>

definition make_vectors ::
  "env \<Rightarrow> string \<Rightarrow> int \<Rightarrow> string list \<Rightarrow> vector list \<Rightarrow> index_entry list" where
  "make_vectors env filename user_id chunks embeddings =
     map (\<lambda>(i, chunk, embedding).
            \<lparr>entry_id = ''doc_'' @ str_int user_id @ ''_'' @ uuid4 env i,
             entry_values = embedding,
             entry_metadata =
               \<lparr>md_text = chunk, md_filename = filename, md_user_id = user_id,
                md_chunk_index = i, md_upload_date = now_iso env i\<rparr>\<rparr>)
         (enumerate 0 (zip chunks embeddings))"

text \<open>
  Lines 244 to 247: the vectors go to the index in batches of 100. A batch that raises ends
  the loop; the batches before it stay in the index.
\<close>

function upsert_batches ::
  "env \<Rightarrow> index_entry list \<Rightarrow> rag_state \<Rightarrow> error option \<times> rag_state" where
  "upsert_batches env vectors st =
     (if vectors = [] then (None, st)
      else
        (let batch = take 100 vectors;
             st1 = st\<lparr>calls := calls st @ [Upsert (length batch)]\<rparr>
         in case upsert_fault env batch of
              Some e \<Rightarrow> (Some e, st1)
            | None \<Rightarrow>
                upsert_batches env (drop 100 vectors)
                  (st1\<lparr>rag_index := map_option (index_upsert batch) (rag_index st1)\<rparr>)))"
  by pat_completeness auto

termination
  by (relation "measure (\<lambda>(env, vectors, st). length vectors)") auto

declare upsert_batches.simps [simp del]

text \<open>
  Lines 254 to 270: the row is added and committed, and the database gives it its id (here
  the next free number).
\<close>

definition db_add_commit ::
  "env \<Rightarrow> course_material \<Rightarrow> rag_state \<Rightarrow> (error + course_material) \<times> rag_state" where
  "db_add_commit env m st =
     (let st1 = st\<lparr>calls := calls st @ [DbCommit]\<rparr> in
      case db_fault env m of
        Some e \<Rightarrow> (Inl e, st1)
      | None \<Rightarrow>
          (let m' = m\<lparr>cm_id := 1 + int (length (materials st1))\<rparr>
           in (Inr m', st1\<lparr>materials := materials st1 @ [m']\<rparr>)))"

text \<open>
  The log lines. \<^verbatim>\<open>upload_document\<close> prints a line before every step, and one more inside
  its exception handler. Every one of these lines starts with characters outside ASCII, some
  of them beyond code point 255, so a printed line is modelled as the list of its code
  points. \<^verbatim>\<open>print\<close> raises (a \<^verbatim>\<open>UnicodeEncodeError\<close>) when the encoding of the standard
  output has no code for a character of the line; whether it does is \<open>stdout_fault\<close> of the
  environment.
\<close>

definition log_line :: "nat list \<Rightarrow> string \<Rightarrow> nat list" where
  "log_line mark msg = mark @ map of_char (CHR '' '' # msg)"

definition py_print :: "env \<Rightarrow> nat list \<Rightarrow> error option" where
  "py_print env line = stdout_fault env line"

text \<open>The first characters of the lines 199, 206, 215, 220 and 243, as code points.\<close>

definition mark_processing :: "nat list" where
  "mark_processing = [0xF8FF, 0xFC, 0xEE, 0xD1]"

definition mark_extracting :: "nat list" where
  "mark_extracting = [0xF8FF, 0xFC, 0xEC, 0xD1]"

definition mark_chunking :: "nat list" where
  "mark_chunking = [0x201A, 0xFA, 0xC7, 0xD4, 0x220F, 0xE8]"

definition mark_embedding :: "nat list" where
  "mark_embedding = [0xF8FF, 0xFC, 0xEE, 0xA2]"

definition mark_uploading :: "nat list" where
  "mark_uploading = [0x201A, 0xF2, 0xC5, 0xD4, 0x220F, 0xE8]"

text \<open>The first characters of the lines 212, 217, 222 and 249, and of line 281.\<close>

definition mark_done :: "nat list" where
  "mark_done = [0x201A, 0xFA, 0xD6]"

definition mark_error :: "nat list" where
  "mark_error = [0x201A, 0xF9, 0xE5]"

text \<open>
  The \<^verbatim>\<open>try\<close> block of \<^verbatim>\<open>upload_document\<close>, lines 199 to 278, statement by statement.
  \<open>Inl e\<close> is an exception raised inside the block, by a \<^verbatim>\<open>raise\<close>, by a collaborator or
  by a \<^verbatim>\<open>print\<close>; \<open>Inr\<close> is the \<^verbatim>\<open>return\<close> of line 272. \<open>None\<close> is a chunker that does
  not return.
\<close>

definition upload_document_try ::
  "env \<Rightarrow> rag_state \<Rightarrow> bytes \<Rightarrow> string \<Rightarrow> int
     \<Rightarrow> ((error + upload_result) \<times> rag_state) option" where
  "upload_document_try env st file_content filename user_id =
     (case py_print env (log_line mark_processing (''Processing document: '' @ filename)) of
        Some e \<Rightarrow> Some (Inl e, st)
      | None \<Rightarrow>
     if rag_index st = None then
       Some (Inl (Exception
         ''Pinecone index not available. Please check your Pinecone configuration.''), st)
     else
     (case py_print env (log_line mark_extracting ''Extracting text from PDF...'') of
        Some e \<Rightarrow> Some (Inl e, st)
      | None \<Rightarrow>
     (let st1 = st\<lparr>calls := calls st @ [PdfRead]\<rparr> in
      case extract_text_from_pdf env file_content of
        Inl e \<Rightarrow> Some (Inl e, st1)
      | Inr text_content \<Rightarrow>
     if strip text_content = [] then Some (Inl (Exception ''No text found in the PDF''), st1)
     else
     (case py_print env (log_line mark_done
             (''Extracted '' @ str_int (int (length text_content)) @ '' characters'')) of
        Some e \<Rightarrow> Some (Inl e, st1)
      | None \<Rightarrow>
     (case py_print env (log_line mark_chunking ''Chunking text...'') of
        Some e \<Rightarrow> Some (Inl e, st1)
      | None \<Rightarrow>
     (case chunk_text text_content 1000 200 of
        None \<Rightarrow> None
      | Some chunks \<Rightarrow>
     (case py_print env (log_line mark_done
             (''Created '' @ str_int (int (length chunks)) @ '' chunks'')) of
        Some e \<Rightarrow> Some (Inl e, st1)
      | None \<Rightarrow>
     (case py_print env (log_line mark_embedding ''Generating embeddings...'') of
        Some e \<Rightarrow> Some (Inl e, st1)
      | None \<Rightarrow>
     (let embeddings = get_embeddings env chunks;
          st2 = st1\<lparr>calls := calls st1 @ map Embed chunks\<rparr> in
      case py_print env (log_line mark_done
             (''Generated '' @ str_int (int (length embeddings)) @ '' embeddings'')) of
        Some e \<Rightarrow> Some (Inl e, st2)
      | None \<Rightarrow>
     (let vectors = make_vectors env filename user_id chunks embeddings in
      case py_print env (log_line mark_uploading ''Uploading to Pinecone...'') of
        Some e \<Rightarrow> Some (Inl e, st2)
      | None \<Rightarrow>
     (case upsert_batches env vectors st2 of
        (Some e, st3) \<Rightarrow> Some (Inl e, st3)
      | (None, st3) \<Rightarrow>
     (case py_print env (log_line mark_done
             (''Uploaded '' @ str_int (int (length vectors)) @ '' vectors to Pinecone'')) of
        Some e \<Rightarrow> Some (Inl e, st3)
      | None \<Rightarrow>
     (case db_add_commit env
             \<lparr>cm_id = 0, cm_course_id = 1, cm_filename = filename,
              cm_original_filename = filename,
              cm_file_path = ''uploads/'' @ filename,
              cm_file_type = ''pdf'',
              cm_file_size = length file_content,
              cm_extracted_text = take 5000 text_content,
              cm_is_processed = True,
              cm_uploaded_by = user_id,
              cm_uploaded_at = now_iso env (length chunks),
              cm_description =
                ''Processed PDF with '' @ str_int (int (length chunks)) @ '' chunks''\<rparr>
             st3 of
        (Inl e, st4) \<Rightarrow> Some (Inl e, st4)
      | (Inr course_material, st4) \<Rightarrow>
          Some (Inr (UploadSuccess
                  (''Document '' @ [CHR 0x27] @ filename @ [CHR 0x27]
                     @ '' processed successfully'')
                  (cm_id course_material)
                  (length chunks)
                  (length text_content)), st4))))))))))))))"

text \<open>
  \<^verbatim>\<open>upload_document\<close>, lines 190 to 285: the \<^verbatim>\<open>try\<close> block with its handler
  \<^verbatim>\<open>except Exception as e\<close> of lines 280 to 285. The handler first prints line 281 and then
  returns the failure dictionary; the \<^verbatim>\<open>print\<close> is outside every \<^verbatim>\<open>try\<close>, so an exception
  it raises leaves \<^verbatim>\<open>upload_document\<close>: that is the result \<open>Inl\<close>.
\<close>

definition upload_document ::
  "env \<Rightarrow> rag_state \<Rightarrow> bytes \<Rightarrow> string \<Rightarrow> int
     \<Rightarrow> ((error + upload_result) \<times> rag_state) option" where
  "upload_document env st file_content filename user_id =
     (case upload_document_try env st file_content filename user_id of
        None \<Rightarrow> None
      | Some (Inr result, st') \<Rightarrow> Some (Inr result, st')
      | Some (Inl e, st') \<Rightarrow>
          (case py_print env
                  (log_line mark_error (''Error processing document: '' @ str_error e)) of
             Some e' \<Rightarrow> Some (Inl e', st')
           | None \<Rightarrow> Some (Inr (upload_failure e), st')))"

section \<open>Retrieval and answering\<close>

text \<open>
  \<^verbatim>\<open>search_documents\<close>, lines 287 to 319: without an index handle, and on any exception,
  the result is the empty list. The log lines of lines 291 and 318 (and of line 184 in
  \<^verbatim>\<open>get_embeddings\<close>) are not part of this model, which describes the service on a
  standard output that accepts them.
\<close>

definition to_hit :: "match \<Rightarrow> hit" where
  "to_hit m =
     \<lparr>hit_text = md_text (match_metadata m), hit_filename = md_filename (match_metadata m),
      hit_score = match_score m, hit_chunk_index = md_chunk_index (match_metadata m)\<rparr>"

definition search_documents ::
  "env \<Rightarrow> rag_state \<Rightarrow> string \<Rightarrow> int \<Rightarrow> nat \<Rightarrow> hit list \<times> rag_state" where
  "search_documents env st query user_id top_k =
     (case rag_index st of
        None \<Rightarrow> ([], st)
      | Some idx \<Rightarrow>
          (let query_embedding = get_embeddings env [query] ! 0;
               st1 = st\<lparr>calls := calls st @ [Embed query, Query user_id top_k]\<rparr>
           in case index_query env idx query_embedding user_id top_k of
                Inl e \<Rightarrow> ([], st1)
              | Inr matches \<Rightarrow> (map to_hit matches, st1)))"

text \<open>
  \<^verbatim>\<open>answer_question\<close>, lines 321 to 384. \<open>generate_content\<close> of the environment stands for
  the call of line 360 together with the read of \<^verbatim>\<open>response.text\<close> in line 373: either
  can raise, and both are inside the same \<^verbatim>\<open>try\<close>.
\<close>

definition no_context_answer :: string where
  "no_context_answer =
     ''I couldn't find any relevant information in your uploaded documents. '' @
     ''Please make sure you've uploaded course materials related to your question.''"

definition make_context :: "hit list \<Rightarrow> string" where
  "make_context relevant_chunks =
     join ''\<newline>\<newline>''
       (map (\<lambda>chunk. ''From '' @ hit_filename chunk @ '':\<newline>'' @ hit_text chunk) relevant_chunks)"

definition make_prompt :: "string \<Rightarrow> string \<Rightarrow> string" where
  "make_prompt ctx question =
     ''\<newline>Based on the following course materials, please answer the student's question '' @
     ''comprehensively and accurately.\<newline>\<newline>COURSE MATERIALS:\<newline>'' @ ctx @
     ''\<newline>\<newline>STUDENT QUESTION: '' @ question @
     ''\<newline>\<newline>INSTRUCTIONS:\<newline>'' @
     ''- Answer based primarily on the provided course materials\<newline>'' @
     ''- If the materials don't fully address the question, clearly state what's missing\<newline>'' @
     ''- Provide examples from the materials when possible\<newline>'' @
     ''- Keep the answer educational and helpful\<newline>'' @
     ''- If asked about topics not covered in the materials, suggest what additional '' @
     ''resources might be needed\<newline>\<newline>ANSWER:\<newline>''"

definition to_source :: "hit \<Rightarrow> source" where
  "to_source chunk =
     \<lparr>src_filename = hit_filename chunk,
      relevance_score = hit_score chunk,
      preview = (if length (hit_text chunk) > 200 then take 200 (hit_text chunk) @ ''...''
                 else hit_text chunk)\<rparr>"

definition answer_question ::
  "env \<Rightarrow> rag_state \<Rightarrow> string \<Rightarrow> int \<Rightarrow> answer_result \<times> rag_state" where
  "answer_question env st question user_id =
     (case search_documents env st question user_id 3 of
        (relevant_chunks, st1) \<Rightarrow>
          if relevant_chunks = [] then
            (\<lparr>answer = no_context_answer, sources = [], has_context = False,
              chunks_used = None\<rparr>, st1)
          else
            (let prompt = make_prompt (make_context relevant_chunks) question;
                 st2 = st1\<lparr>calls := calls st1 @ [Generate]\<rparr>
             in case generate_content env prompt of
                  Inl e \<Rightarrow>
                    (\<lparr>answer =
                        ''I apologize, but I encountered an error while processing your question: ''
                          @ str_error e,
                      sources = [], has_context = False, chunks_used = None\<rparr>, st2)
                | Inr response_text \<Rightarrow>
                    (\<lparr>answer = response_text, sources = map to_source relevant_chunks,
                      has_context = True, chunks_used = Some (length relevant_chunks)\<rparr>, st2)))"

text \<open>The entries of the index that belong to an owner (none without an index handle).\<close>

definition indexed_chunks :: "rag_state \<Rightarrow> int \<Rightarrow> index_entry list" where
  "indexed_chunks st user_id =
     (case rag_index st of
        None \<Rightarrow> []
      | Some idx \<Rightarrow> filter (\<lambda>e. md_user_id (entry_metadata e) = user_id) idx)"

section \<open>A sample environment\<close>

text \<open>
  Concrete collaborators and a concrete index with the entries of two owners, on which the
  model is run below: every call succeeds, every line can be printed, the one page of the
  file reads
  \<^verbatim>\<open>The capital of France is Paris.\<close>, and the embedding of a text is a constant vector of
  dimension 768 (the empty text is refused).
\<close>

definition sample_env :: env where
  "sample_env =
     \<lparr>pdf_pages = (\<lambda>b. Inr [Inr ''The capital of France is Paris.'']),
      embed_content =
        (\<lambda>t. if t = [] then Inl (Exception ''empty content'') else Inr (replicate 768 1)),
      similarity = (\<lambda>q v. 1),
      upsert_fault = (\<lambda>b. None),
      query_fault = (\<lambda>v. None),
      generate_content = (\<lambda>p. Inr ''Paris.''),
      uuid4 = (\<lambda>n. replicate (Suc n) (CHR ''u'')),
      now_iso = (\<lambda>n. ''2024-01-01T00:00:00''),
      db_fault = (\<lambda>m. None),
      stdout_fault = (\<lambda>line. None)\<rparr>"

definition sample_entry :: "string \<Rightarrow> int \<Rightarrow> string \<Rightarrow> string \<Rightarrow> index_entry" where
  "sample_entry i user_id filename tx =
     \<lparr>entry_id = i, entry_values = [1],
      entry_metadata =
        \<lparr>md_text = tx, md_filename = filename, md_user_id = user_id, md_chunk_index = 0,
         md_upload_date = ''2024-01-01T00:00:00''\<rparr>\<rparr>"

definition sample_state :: rag_state where
  "sample_state =
     \<lparr>rag_index =
        Some [sample_entry ''doc_1_a'' 1 ''france.pdf'' ''The capital of France is Paris.'',
              sample_entry ''doc_2_b'' 2 ''germany.pdf'' ''The capital of Germany is Berlin.''],
      materials = [], calls = []\<rparr>"

text \<open>
  A text of 1001 characters: a space, 998 letters, a full stop and one more letter.
\<close>

definition padded_text :: string where
  "padded_text = CHR '' '' # replicate 998 (CHR ''a'') @ ''.b''"

text \<open>The same index with one long chunk of 201 characters for owner 1.\<close>

definition long_state :: rag_state where
  "long_state =
     \<lparr>rag_index = Some [sample_entry ''doc_1_c'' 1 ''long.pdf'' (replicate 201 (CHR ''a''))],
      materials = [], calls = []\<rparr>"

text \<open>A service whose constructor could not connect to the index.\<close>

definition offline_state :: rag_state where
  "offline_state = \<lparr>rag_index = None, materials = [], calls = []\<rparr>"


text \<open>A language model whose reply has no text: reading \<^verbatim>\<open>response.text\<close> raises.\<close>

definition silent_model_env :: env where
  "silent_model_env =
     sample_env\<lparr>generate_content := (\<lambda>p. Inl (Exception ''no text in response''))\<rparr>"

text \<open>A language model that replies with the empty text.\<close>

definition empty_model_env :: env where
  "empty_model_env = sample_env\<lparr>generate_content := (\<lambda>p. Inr [])\<rparr>"


section \<open>The chunker: termination, short texts, coverage\<close>

lemma chunk_end_advance:
  "1 \<le> chunk_size \<Longrightarrow> start + chunk_size div 2 + 1 \<le> chunk_end tx chunk_size start"
  by (auto simp: chunk_end_def Let_def)

text \<open>
  With a window of at least one character and an overlap of at most half the window, the
  loop returns: \<open>start\<close> grows in every iteration and the loop ends once it reaches the
  length of the text.
\<close>

lemma chunk_loop_returns:
  assumes "1 \<le> chunk_size" "overlap \<le> chunk_size div 2"
  shows "\<exists>r. chunk_loop tx chunk_size overlap start chunks = Some r"
proof (induction "nat (int (length tx) - start)" arbitrary: start chunks rule: less_induct)
  case less
  let ?e = "chunk_end tx chunk_size start"
  show ?case
  proof (cases "start < int (length tx)")
    case False
    then show ?thesis by (subst chunk_loop.simps) simp
  next
    case True
    have adv: "start + 1 \<le> ?e - overlap"
      using chunk_end_advance[OF assms(1), of start tx] assms(2) by simp
    show ?thesis
    proof (cases "?e - overlap \<ge> int (length tx)")
      case True
      with \<open>start < int (length tx)\<close> show ?thesis
        by (subst chunk_loop.simps) (simp add: Let_def)
    next
      case False
      have "nat (int (length tx) - (?e - overlap)) < nat (int (length tx) - start)"
        using adv True by linarith
      from less[OF this] have
        "\<And>ch. \<exists>r. chunk_loop tx chunk_size overlap (?e - overlap) ch = Some r"
        by blast
      with True False show ?thesis
        by (subst chunk_loop.simps) (simp add: Let_def)
    qed
  qed
qed

lemma chunk_text_default_returns [simp]: "chunk_text tx 1000 200 \<noteq> None"
proof -
  have "\<exists>r. chunk_loop tx 1000 200 0 [] = Some r"
    by (rule chunk_loop_returns) simp_all
  then show ?thesis by (auto simp: chunk_text_def)
qed

text \<open>
  With a window of zero characters the loop never leaves its first state: every window is
  empty, no chunk is added and \<open>start\<close> stays 0.
\<close>

lemma chunk_loop_stuck: "chunk_loop ''a'' 0 0 0 [] = None"
proof -
  have ce: "chunk_end ''a'' 0 0 = 0" by code_simp
  have sl: "strip (slice ''a'' 0 0) = []" by code_simp
  have "\<not> (tx = ''a'' \<and> cs = 0 \<and> ov = 0 \<and> st = 0 \<and> ch = [])"
    if "chunk_loop tx cs ov st ch = Some y" for tx cs ov st ch y
  proof (rule chunk_loop.raw_induct
      [where P = "\<lambda>tx cs ov st ch y. \<not> (tx = ''a'' \<and> cs = 0 \<and> ov = 0 \<and> st = 0 \<and> ch = [])",
        OF _ that])
    fix f tx cs ov st ch and y :: "string list"
    assume ih: "\<And>tx cs ov st ch y. f tx cs ov st ch = Some y \<Longrightarrow>
                  \<not> (tx = ''a'' \<and> cs = 0 \<and> ov = 0 \<and> st = 0 \<and> ch = [])"
      and step: "(if st < int (length tx)
          then let e = chunk_end tx cs st; chunk = strip (slice tx st e);
                   chunks' = if chunk \<noteq> [] then ch @ [chunk] else ch; start' = e - ov
               in if int (length tx) \<le> start' then Some chunks' else f tx cs ov start' chunks'
          else Some ch) = Some y"
    show "\<not> (tx = ''a'' \<and> cs = 0 \<and> ov = 0 \<and> st = 0 \<and> ch = [])"
    proof
      assume a: "tx = ''a'' \<and> cs = 0 \<and> ov = 0 \<and> st = 0 \<and> ch = []"
      with step have "f ''a'' 0 0 0 [] = Some y"
        by (simp add: Let_def ce sl)
      from ih[OF this] show False by simp
    qed
  qed
  then have "chunk_loop ''a'' 0 0 0 [] \<noteq> Some y" for y
    by blast
  then show ?thesis by (metis not_Some_eq)
qed

text \<open>
  C10, as stated, fails: with \<^verbatim>\<open>chunk_size = 0\<close> and \<^verbatim>\<open>overlap = 0\<close> the bound
  \<^verbatim>\<open>overlap <= chunk_size // 2\<close> holds and \<^verbatim>\<open>chunk_text("a", 0, 0)\<close> does not return.
\<close>

theorem chunk_text_zero_window_diverges:
  "(0::int) \<le> 0 div 2 \<and> chunk_text ''a'' 0 0 = None"
  by (simp add: chunk_text_def chunk_loop_stuck)

text \<open>
  C10, amended: for \<^verbatim>\<open>chunk_size >= 1\<close> and \<^verbatim>\<open>overlap <= chunk_size // 2\<close> (the defaults
  1000 and 200 among them) \<^verbatim>\<open>chunk_text\<close> returns for every text, and every iteration moves
  \<^verbatim>\<open>start\<close> forward by at least \<^verbatim>\<open>chunk_size // 2 + 1 - overlap >= 1\<close> characters.
\<close>

theorem chunk_text_terminates:
  assumes "1 \<le> chunk_size" and "overlap \<le> chunk_size div 2"
  shows "(\<exists>chunks. chunk_text tx chunk_size overlap = Some chunks)
       \<and> 1 \<le> chunk_size div 2 + 1 - overlap
       \<and> start + (chunk_size div 2 + 1 - overlap) \<le> chunk_end tx chunk_size start - overlap"
proof -
  have "\<exists>r. chunk_loop tx chunk_size overlap 0 [] = Some r"
    by (rule chunk_loop_returns[OF assms])
  then have "\<exists>chunks. chunk_text tx chunk_size overlap = Some chunks"
    by (simp add: chunk_text_def)
  moreover have "start + (chunk_size div 2 + 1 - overlap) \<le> chunk_end tx chunk_size start - overlap"
    using chunk_end_advance[OF assms(1), of start tx] by simp
  ultimately show ?thesis using assms(2) by simp
qed

theorem chunk_text_terminates_witness:
  "(1::int) \<le> 6 \<and> (2::int) \<le> 6 div 2
   \<and> chunk_text ''ab. cd efgh. ij'' 6 2 = Some [''ab. cd'', ''cd efg'', ''fgh.'', ''h. ij'', ''j'']
   \<and> (0::int) + (6 div 2 + 1 - 2) \<le> chunk_end ''ab. cd efgh. ij'' 6 0 - 2"
proof -
  have "chunk_text ''ab. cd efgh. ij'' 6 2 = Some [''ab. cd'', ''cd efg'', ''fgh.'', ''h. ij'', ''j'']"
    by code_simp
  then show ?thesis
    using chunk_text_terminates[of 6 2 "''ab. cd efgh. ij''" 0] by simp
qed

text \<open>
  C4, as stated, fails: a text that fits into one chunk is returned as it is, with its
  surrounding whitespace (line 139 returns \<^verbatim>\<open>[text]\<close>, not \<^verbatim>\<open>[text.strip()]\<close>).
\<close>

theorem chunk_text_short_not_trimmed:
  "int (length '' a '') \<le> 1000
   \<and> chunk_text '' a '' 1000 200 = Some ['' a '']
   \<and> chunk_text '' a '' 1000 200 \<noteq> Some [strip '' a '']"
  by code_simp

text \<open>
  C4, amended: for every text \<^verbatim>\<open>T\<close> with \<^verbatim>\<open>len(T) <= chunk_size\<close>, \<^verbatim>\<open>chunk_text\<close> returns
  exactly one chunk, and that chunk is \<^verbatim>\<open>T\<close> itself, unchanged.
\<close>

theorem chunk_text_short:
  "int (length tx) \<le> chunk_size \<Longrightarrow> chunk_text tx chunk_size overlap = Some [tx]"
  by (simp add: chunk_text_def)

theorem chunk_text_short_witness:
  "int (length '' a '') \<le> 1000 \<and> chunk_text '' a '' 1000 200 = Some ['' a '']"
  using chunk_text_short[of "'' a ''" 1000 200] by simp

lemma take_drop_join:
  assumes "i \<le> j"
  shows "take (j - i) (drop i xs) @ drop j xs = drop i xs"
proof -
  have "drop j xs = drop (j - i) (drop i xs)" using assms by simp
  then show ?thesis by (simp only: append_take_drop_id)
qed

lemma slice_append:
  assumes "0 \<le> a" "a \<le> b"
  shows "slice xs a b @ slice xs b (int (length xs)) = slice xs a (int (length xs))"
proof -
  let ?n = "length xs"
  let ?la = "min ?n (nat a)" and ?lb = "min ?n (nat b)"
  have le: "?la \<le> ?lb" using assms by auto
  have "take (?lb - ?la) (drop ?la xs) @ drop ?lb xs = drop ?la xs"
    by (rule take_drop_join[OF le])
  then show ?thesis using assms by (simp add: slice_def slice_index_def Let_def)
qed

lemma slice_beyond:
  "int (length xs) \<le> b \<Longrightarrow> slice xs a b = slice xs a (int (length xs))"
  by (simp add: slice_def slice_index_def Let_def)

lemma slice_all: "slice xs 0 (int (length xs)) = xs"
  by (simp add: slice_def slice_index_def Let_def)

lemma slice_past: "int (length xs) \<le> a \<Longrightarrow> slice xs a b = []"
  by (simp add: slice_def slice_index_def Let_def)

lemma trimmed_append: "trimmed tx (xs @ ys) = trimmed tx xs @ trimmed tx ys"
  by (simp add: trimmed_def)

text \<open>
  The loop and its recording twin run in step: the chunks are the trimmed windows, and the
  parts of the windows beyond what was covered before make up the rest of the text.
\<close>

lemma chunk_loops_agree:
  assumes cs: "1 \<le> chunk_size" and ov0: "0 \<le> overlap" and ov: "overlap \<le> chunk_size div 2"
  shows "0 \<le> start \<Longrightarrow> start \<le> covered \<Longrightarrow> covered \<le> start + chunk_size div 2 \<Longrightarrow>
     \<exists>spans. chunk_spans_loop tx chunk_size overlap start acc = Some (acc @ spans)
       \<and> chunk_loop tx chunk_size overlap start chunks = Some (chunks @ trimmed tx spans)
       \<and> novel_spans tx covered spans = slice tx covered (int (length tx))"
proof (induction "nat (int (length tx) - start)" arbitrary: start covered acc chunks rule: less_induct)
  case less
  let ?n = "int (length tx)"
  let ?e = "chunk_end tx chunk_size start"
  let ?c = "strip (slice tx start ?e)"
  show ?case
  proof (cases "start < ?n")
    case False
    then have "chunk_spans_loop tx chunk_size overlap start acc = Some (acc @ [])"
      and "chunk_loop tx chunk_size overlap start chunks = Some (chunks @ trimmed tx [])"
      by (subst chunk_spans_loop.simps chunk_loop.simps, simp add: trimmed_def)+
    moreover have "novel_spans tx covered [] = slice tx covered ?n"
      using False less.prems by (simp add: slice_past)
    ultimately show ?thesis by blast
  next
    case True
    have adv: "start + chunk_size div 2 + 1 \<le> ?e"
      by (rule chunk_end_advance[OF cs])
    have tr1: "trimmed tx [(start, ?e)] = (if ?c \<noteq> [] then [?c] else [])"
      by (simp add: trimmed_def)
    show ?thesis
    proof (cases "?e - overlap \<ge> ?n")
      case True
      have "chunk_spans_loop tx chunk_size overlap start acc = Some (acc @ [(start, ?e)])"
        using \<open>start < ?n\<close> True by (subst chunk_spans_loop.simps) (simp add: Let_def)
      moreover have "chunk_loop tx chunk_size overlap start chunks
                       = Some (chunks @ trimmed tx [(start, ?e)])"
        using \<open>start < ?n\<close> True by (subst chunk_loop.simps) (simp add: Let_def tr1)
      moreover have "novel_spans tx covered [(start, ?e)] = slice tx covered ?n"
      proof -
        have "?n \<le> ?e" using True ov0 by linarith
        then show ?thesis using less.prems by (simp add: max_def slice_beyond[of tx ?e])
      qed
      ultimately show ?thesis by blast
    next
      case False
      let ?s' = "?e - overlap"
      have m: "nat (?n - ?s') < nat (?n - start)" using adv ov True by linarith
      have p: "0 \<le> ?s'" "?s' \<le> ?e" "?e \<le> ?s' + chunk_size div 2"
        using adv ov ov0 less.prems by linarith+
      from less.hyps[OF m p, of "acc @ [(start, ?e)]" "chunks @ trimmed tx [(start, ?e)]"]
      obtain spans where
        s1: "chunk_spans_loop tx chunk_size overlap ?s' (acc @ [(start, ?e)])
               = Some ((acc @ [(start, ?e)]) @ spans)"
        and s2: "chunk_loop tx chunk_size overlap ?s' (chunks @ trimmed tx [(start, ?e)])
               = Some ((chunks @ trimmed tx [(start, ?e)]) @ trimmed tx spans)"
        and s3: "novel_spans tx ?e spans = slice tx ?e ?n"
        by blast
      have "chunk_spans_loop tx chunk_size overlap start acc = Some (acc @ ((start, ?e) # spans))"
        using \<open>start < ?n\<close> False s1 by (subst chunk_spans_loop.simps) (simp add: Let_def)
      moreover have "chunk_loop tx chunk_size overlap start chunks
              = Some (chunks @ trimmed tx ((start, ?e) # spans))"
      proof -
        have "trimmed tx ((start, ?e) # spans) = trimmed tx [(start, ?e)] @ trimmed tx spans"
          using trimmed_append[of tx "[(start, ?e)]" spans] by simp
        then show ?thesis
          using \<open>start < ?n\<close> False s2
          by (subst chunk_loop.simps) (cases "?c = []"; simp add: Let_def tr1)
      qed
      moreover have "novel_spans tx covered ((start, ?e) # spans) = slice tx covered ?n"
      proof -
        have ce: "covered \<le> ?e" "0 \<le> covered"
          using adv less.prems by linarith+
        have "novel_spans tx covered ((start, ?e) # spans) = slice tx covered ?e @ slice tx ?e ?n"
          using ce less.prems s3 by (simp add: max_def)
        then show ?thesis using slice_append[OF ce(2) ce(1)] by simp
      qed
      ultimately show ?thesis by blast
    qed
  qed
qed

text \<open>
  The chunker on \<open>padded_text\<close> with the default sizes, step by step: the first window is
  cut after the full stop at position 999, the second one runs to the end of the text.
\<close>

lemma padded_text_length: "int (length padded_text) = 1001"
  by (simp add: padded_text_def)

lemma padded_text_first_cut: "chunk_end padded_text 1000 0 = 1000"
  unfolding padded_text_def by code_simp

lemma padded_text_second_cut: "chunk_end padded_text 1000 800 = 1800"
  by (simp add: chunk_end_def padded_text_length)

lemma padded_text_first_chunk:
  "strip (slice padded_text 0 1000) = replicate 998 (CHR ''a'') @ ''.''"
  unfolding padded_text_def by code_simp

lemma padded_text_second_chunk:
  "strip (slice padded_text 800 1800) = replicate 199 (CHR ''a'') @ ''.b''"
  unfolding padded_text_def by code_simp

lemma padded_text_chunks:
  "chunk_text padded_text 1000 200
     = Some [replicate 998 (CHR ''a'') @ ''.'', replicate 199 (CHR ''a'') @ ''.b'']"
proof -
  have "chunk_loop padded_text 1000 200 800 [replicate 998 (CHR ''a'') @ ''.'']
          = Some [replicate 998 (CHR ''a'') @ ''.'', replicate 199 (CHR ''a'') @ ''.b'']"
    by (subst chunk_loop.simps)
      (simp add: Let_def padded_text_length padded_text_second_cut padded_text_second_chunk)
  then have "chunk_loop padded_text 1000 200 0 []
          = Some [replicate 998 (CHR ''a'') @ ''.'', replicate 199 (CHR ''a'') @ ''.b'']"
    by (subst chunk_loop.simps)
      (simp add: Let_def padded_text_length padded_text_first_cut padded_text_first_chunk)
  then show ?thesis by (simp add: chunk_text_def padded_text_length)
qed

text \<open>
  C3, as stated, fails, already for the default sizes: \<open>padded_text\<close> is longer than 1000
  characters and starts with a space, and that space is in neither of the two chunks,
  because every window is stripped (line 159) before it is kept.
\<close>

theorem chunk_text_strips_whitespace:
  "1000 < int (length padded_text)
   \<and> chunk_text padded_text 1000 200
       = Some [replicate 998 (CHR ''a'') @ ''.'', replicate 199 (CHR ''a'') @ ''.b'']
   \<and> CHR '' '' \<in> set padded_text
   \<and> CHR '' '' \<notin> set (concat [replicate 998 (CHR ''a'') @ ''.'',
                                  replicate 199 (CHR ''a'') @ ''.b''])"
  by (simp add: padded_text_chunks padded_text_length) (simp add: padded_text_def)

text \<open>
  C3, amended: for \<^verbatim>\<open>chunk_size >= 1\<close>, \<^verbatim>\<open>0 <= overlap <= chunk_size // 2\<close> and every text
  \<^verbatim>\<open>T\<close> with \<^verbatim>\<open>len(T) > chunk_size\<close>, the windows \<^verbatim>\<open>text[start:end]\<close> the chunker cuts cover
  \<^verbatim>\<open>T\<close>: concatenating, window by window, the span not reached by an earlier window
  reconstructs \<^verbatim>\<open>T\<close> exactly. The returned chunks are these windows with surrounding
  whitespace stripped, the empty ones dropped; so no returned chunk is the empty string.
\<close>

theorem chunk_text_coverage:
  assumes "1 \<le> chunk_size" and "0 \<le> overlap" and "overlap \<le> chunk_size div 2"
    and "chunk_size < int (length tx)"
  shows "\<exists>spans. chunk_spans tx chunk_size overlap = Some spans
           \<and> novel_spans tx 0 spans = tx
           \<and> chunk_text tx chunk_size overlap = Some (trimmed tx spans)
           \<and> [] \<notin> set (trimmed tx spans)"
proof -
  from chunk_loops_agree[OF assms(1-3), of 0 0 tx "[]" "[]"]
  obtain spans where
    "chunk_spans_loop tx chunk_size overlap 0 [] = Some spans"
    "chunk_loop tx chunk_size overlap 0 [] = Some (trimmed tx spans)"
    "novel_spans tx 0 spans = slice tx 0 (int (length tx))"
    using assms(1) by auto
  moreover have "[] \<notin> set (trimmed tx spans)"
    by (simp add: trimmed_def)
  ultimately show ?thesis
    using assms(4) by (simp add: chunk_spans_def chunk_text_def slice_all)
qed

theorem chunk_text_coverage_witness:
  "(1::int) \<le> 6 \<and> (0::int) \<le> 2 \<and> (2::int) \<le> 6 div 2 \<and> 6 < int (length ''ab. cd efgh. ij'')
   \<and> chunk_spans ''ab. cd efgh. ij'' 6 2 = Some [(0, 6), (4, 10), (8, 12), (10, 16), (14, 20)]
   \<and> novel_spans ''ab. cd efgh. ij'' 0 [(0, 6), (4, 10), (8, 12), (10, 16), (14, 20)]
       = ''ab. cd efgh. ij''
   \<and> chunk_text ''ab. cd efgh. ij'' 6 2
       = Some (trimmed ''ab. cd efgh. ij'' [(0, 6), (4, 10), (8, 12), (10, 16), (14, 20)])"
proof -
  have "chunk_spans ''ab. cd efgh. ij'' 6 2 = Some [(0, 6), (4, 10), (8, 12), (10, 16), (14, 20)]"
    by code_simp
  then show ?thesis
    using chunk_text_coverage[of 6 2 "''ab. cd efgh. ij''"] by auto
qed

section \<open>Embeddings\<close>

lemma get_embeddings_loop_map:
  "get_embeddings_loop env texts acc
     = acc @ map (\<lambda>t. case embed_content env t of Inr v \<Rightarrow> v | Inl e \<Rightarrow> replicate 768 0) texts"
  by (induction texts arbitrary: acc) simp_all

lemma get_embeddings_map:
  "get_embeddings env texts
     = map (\<lambda>t. case embed_content env t of Inr v \<Rightarrow> v | Inl e \<Rightarrow> replicate 768 0) texts"
  by (simp add: get_embeddings_def get_embeddings_loop_map)

text \<open>
  C5: \<^verbatim>\<open>get_embeddings\<close> returns one vector per text, in the order of the texts, and the
  empty list for no text; the vector of a text whose embedding call fails is the zero
  vector of dimension 768, and the batch goes on. Every vector has dimension 768, given
  that the embedding service, when it succeeds, returns vectors of that dimension (the
  code does not check the reply).
\<close>

theorem get_embeddings_shape:
  assumes "\<And>t v. embed_content env t = Inr v \<Longrightarrow> length v = 768"
  shows "get_embeddings env [] = []
       \<and> length (get_embeddings env texts) = length texts
       \<and> (\<forall>i<length texts.
            (case embed_content env (texts ! i) of
               Inr v \<Rightarrow> get_embeddings env texts ! i = v
             | Inl e \<Rightarrow> get_embeddings env texts ! i = replicate 768 0))
       \<and> (\<forall>v\<in>set (get_embeddings env texts). length v = 768)"
  using assms by (auto simp: get_embeddings_map split: sum.splits)

theorem get_embeddings_shape_witness:
  "get_embeddings sample_env [''a'', [], ''b'']
     = [replicate 768 1, replicate 768 0, replicate 768 1]
   \<and> map length (get_embeddings sample_env [''a'', [], ''b'']) = [768, 768, 768]"
proof -
  have dim: "\<And>t v. embed_content sample_env t = Inr v \<Longrightarrow> length v = 768"
    by (auto simp: sample_env_def split: if_splits)
  have "get_embeddings sample_env [''a'', [], ''b'']
          = [replicate 768 1, replicate 768 0, replicate 768 1]"
    by (simp add: get_embeddings_map sample_env_def)
  then show ?thesis
    using get_embeddings_shape[of sample_env "[''a'', [], ''b'']", OF dim] by simp
qed

section \<open>Search\<close>

lemma index_query_matches:
  assumes "index_query env idx v user_id top_k = Inr ms"
  shows "length ms \<le> top_k"
    and "m \<in> set ms \<Longrightarrow>
           \<exists>e\<in>set idx. md_user_id (entry_metadata e) = user_id \<and> m = to_match env v e"
proof -
  let ?own = "filter (\<lambda>e. md_user_id (entry_metadata e) = user_id) idx"
  from assms have ms: "ms = take top_k (sort_key (\<lambda>m. - match_score m) (map (to_match env v) ?own))"
    by (simp add: index_query_def split: option.splits)
  show "length ms \<le> top_k" by (simp add: ms)
  assume "m \<in> set ms"
  then have "m \<in> set (map (to_match env v) ?own)"
    unfolding ms by (auto dest: in_set_takeD)
  then show "\<exists>e\<in>set idx. md_user_id (entry_metadata e) = user_id \<and> m = to_match env v e"
    by auto
qed

lemma index_query_own_entries:
  "index_query env (filter (\<lambda>e. md_user_id (entry_metadata e) = user_id) idx) v user_id top_k
     = index_query env idx v user_id top_k"
  by (simp add: index_query_def split: option.splits)

text \<open>
  C1: the result of \<^verbatim>\<open>search_documents(query, U, top_k)\<close> is built from at most \<^verbatim>\<open>top_k\<close>
  matches, each of them an entry of the index whose metadata owner id is \<^verbatim>\<open>U\<close>; and the
  result is the same when the entries of every other owner are removed from the index, so
  nothing of another owner's entries reaches it.
\<close>

theorem search_documents_isolation:
  "(\<exists>ms. fst (search_documents env st query user_id top_k) = map to_hit ms
        \<and> length ms \<le> top_k
        \<and> (\<forall>m\<in>set ms. md_user_id (match_metadata m) = user_id
              \<and> (\<exists>e\<in>set (indexed_chunks st user_id). match_metadata m = entry_metadata e)))
   \<and> fst (search_documents env st query user_id top_k)
       = fst (search_documents env
               (st\<lparr>rag_index := map_option (filter (\<lambda>e. md_user_id (entry_metadata e) = user_id))
                                  (rag_index st)\<rparr>) query user_id top_k)"
proof (rule conjI)
  show "\<exists>ms. fst (search_documents env st query user_id top_k) = map to_hit ms
        \<and> length ms \<le> top_k
        \<and> (\<forall>m\<in>set ms. md_user_id (match_metadata m) = user_id
              \<and> (\<exists>e\<in>set (indexed_chunks st user_id). match_metadata m = entry_metadata e))"
  proof (cases "rag_index st")
    case None
    then have "fst (search_documents env st query user_id top_k) = map to_hit []"
      by (simp add: search_documents_def)
    then show ?thesis by (intro exI[of _ "[]"]) simp
  next
    case (Some idx)
    let ?q = "index_query env idx (get_embeddings env [query] ! 0) user_id top_k"
    show ?thesis
    proof (cases ?q)
      case (Inl e)
      with Some have "fst (search_documents env st query user_id top_k) = map to_hit []"
        by (simp add: search_documents_def Let_def)
      then show ?thesis by (intro exI[of _ "[]"]) simp
    next
      case (Inr ms)
      with Some have "fst (search_documents env st query user_id top_k) = map to_hit ms"
        by (simp add: search_documents_def Let_def)
      moreover have "length ms \<le> top_k"
        by (rule index_query_matches(1)[OF Inr])
      moreover have "md_user_id (match_metadata m) = user_id
              \<and> (\<exists>e\<in>set (indexed_chunks st user_id). match_metadata m = entry_metadata e)"
        if "m \<in> set ms" for m
        using index_query_matches(2)[OF Inr that] Some
        by (auto simp: indexed_chunks_def to_match_def)
      ultimately show ?thesis by blast
    qed
  qed
next
  show "fst (search_documents env st query user_id top_k)
       = fst (search_documents env
               (st\<lparr>rag_index := map_option (filter (\<lambda>e. md_user_id (entry_metadata e) = user_id))
                                  (rag_index st)\<rparr>) query user_id top_k)"
    by (cases "rag_index st")
      (simp_all add: search_documents_def Let_def index_query_own_entries split: sum.splits)
qed

theorem search_documents_isolation_witness:
  "fst (search_documents sample_env sample_state ''capital?'' 1 3)
     = [\<lparr>hit_text = ''The capital of France is Paris.'', hit_filename = ''france.pdf'',
         hit_score = 1, hit_chunk_index = 0\<rparr>]
   \<and> (\<exists>ms. fst (search_documents sample_env sample_state ''capital?'' 1 3) = map to_hit ms
        \<and> length ms \<le> 3
        \<and> (\<forall>m\<in>set ms. md_user_id (match_metadata m) = 1
              \<and> (\<exists>e\<in>set (indexed_chunks sample_state 1). match_metadata m = entry_metadata e)))"
proof (rule conjI)
  show "fst (search_documents sample_env sample_state ''capital?'' 1 3)
     = [\<lparr>hit_text = ''The capital of France is Paris.'', hit_filename = ''france.pdf'',
         hit_score = 1, hit_chunk_index = 0\<rparr>]"
    by code_simp
next
  show "\<exists>ms. fst (search_documents sample_env sample_state ''capital?'' 1 3) = map to_hit ms
        \<and> length ms \<le> 3
        \<and> (\<forall>m\<in>set ms. md_user_id (match_metadata m) = 1
              \<and> (\<exists>e\<in>set (indexed_chunks sample_state 1). match_metadata m = entry_metadata e))"
    by (rule conjunct1[OF search_documents_isolation])
qed


section \<open>Ingestion\<close>

text \<open>The batch loop touches neither the table of materials nor the calls made before it.\<close>

lemma upsert_batches_frame:
  "materials (snd (upsert_batches env vectors st)) = materials st
   \<and> set (calls st) \<subseteq> set (calls (snd (upsert_batches env vectors st)))"
proof (induction env vectors st rule: upsert_batches.induct)
  case (1 env vectors st)
  show ?case
  proof (cases "vectors = []")
    case True
    then show ?thesis by (subst (1 2) upsert_batches.simps) simp
  next
    case False
    show ?thesis
    proof (cases "upsert_fault env (take 100 vectors)")
      case None
      with False 1 show ?thesis
        by (subst (1 2) upsert_batches.simps) (auto simp: Let_def)
    next
      case (Some e)
      with False show ?thesis
        by (subst (1 2) upsert_batches.simps) (auto simp: Let_def)
    qed
  qed
qed

text \<open>
  The \<^verbatim>\<open>try\<close> block without an index handle: it ends with an exception before the
  extraction, either the one of the first \<^verbatim>\<open>print\<close> or the one of line 203, and leaves the
  state as it was.
\<close>

lemma upload_document_try_offline:
  "rag_index st = None \<Longrightarrow>
   upload_document_try env st file_content filename user_id
     = Some (Inl (case py_print env
                         (log_line mark_processing (''Processing document: '' @ filename)) of
                    Some e \<Rightarrow> e
                  | None \<Rightarrow> Exception
                      ''Pinecone index not available. Please check your Pinecone configuration.''),
             st)"
  by (simp add: upload_document_try_def split: option.splits)

text \<open>
  The \<^verbatim>\<open>try\<close> block always ends, with an exception or with the success dictionary
  (never with the failure dictionary, which only the handler builds). The fields of the
  success dictionary are the id of the stored row, the number of chunks and the length of
  the text.
\<close>

lemma upload_document_try_returns:
  "upload_document_try env st file_content filename user_id \<noteq> None"
  by (simp add: upload_document_try_def Let_def db_add_commit_def
      split: option.splits sum.splits prod.splits)

lemma upload_document_try_success:
  assumes "upload_document_try env st file_content filename user_id = Some (Inr res, st')"
  shows "case res of
           UploadSuccess msg cid n len \<Rightarrow>
             (\<exists>tx chunks. extract_text_from_pdf env file_content = Inr tx
                          \<and> chunk_text tx 1000 200 = Some chunks
                          \<and> n = length chunks \<and> len = length tx)
             \<and> cid \<in> set (map cm_id (materials st'))
         | UploadFailure msg \<Rightarrow> False"
  using assms
  by (auto simp: upload_document_try_def Let_def db_add_commit_def
      split: option.splits sum.splits prod.splits if_splits)

text \<open>
  So \<^verbatim>\<open>upload_document\<close> always ends, and in one of three ways: with the success
  dictionary, with the failure dictionary, or with the exception that the \<^verbatim>\<open>print\<close> of its
  handler (line 281) raised.
\<close>

lemma upload_document_outcomes:
  "\<exists>r st'. upload_document env st file_content filename user_id = Some (r, st')
     \<and> (case r of
          Inl e \<Rightarrow>
            (\<exists>cause. py_print env
                        (log_line mark_error (''Error processing document: '' @ str_error cause))
                      = Some e)
        | Inr res \<Rightarrow>
            (case res of
               UploadSuccess msg cid n len \<Rightarrow>
                 (\<exists>tx chunks. extract_text_from_pdf env file_content = Inr tx
                              \<and> chunk_text tx 1000 200 = Some chunks
                              \<and> n = length chunks \<and> len = length tx)
                 \<and> cid \<in> set (map cm_id (materials st'))
             | UploadFailure msg \<Rightarrow>
                 (\<exists>detail. msg = ''Error processing document: '' @ detail)))"
proof -
  obtain r st' where t: "upload_document_try env st file_content filename user_id = Some (r, st')"
    using upload_document_try_returns[of env st file_content filename user_id] by fastforce
  show ?thesis
  proof (cases r)
    case (Inr res)
    with t upload_document_try_success[of env st file_content filename user_id res st']
    show ?thesis
      by (cases res) (auto simp: upload_document_def)
  next
    case (Inl cause)
    show ?thesis
    proof (cases "py_print env
                    (log_line mark_error (''Error processing document: '' @ str_error cause))")
      case None
      with t Inl show ?thesis
        by (simp add: upload_document_def upload_failure_def)
    next
      case (Some e)
      with t Inl show ?thesis
        by (auto simp: upload_document_def)
    qed
  qed
qed


text \<open>
  C8: without an index handle \<^verbatim>\<open>upload_document\<close> never succeeds, and the state, with its
  record of the calls made, is the one it started from: no collaborator was called, so the
  extractor was not. When the two lines printed on this path (lines 199 and 281) can be
  printed, the result is the failure with the index-unavailable message.
\<close>

theorem upload_document_fails_fast:
  assumes "rag_index st = None"
  shows "\<exists>r st'. upload_document env st file_content filename user_id = Some (r, st')
         \<and> st' = st \<and> calls st' = calls st
         \<and> (\<forall>msg cid n len. r \<noteq> Inr (UploadSuccess msg cid n len))
         \<and> (py_print env (log_line mark_processing (''Processing document: '' @ filename)) = None
            \<and> py_print env (log_line mark_error (''Error processing document: '' @
                 ''Pinecone index not available. Please check your Pinecone configuration.''))
                = None
            \<longrightarrow> r = Inr (UploadFailure
                 (''Error processing document: '' @
                  ''Pinecone index not available. Please check your Pinecone configuration.'')))"
  by (auto simp: upload_document_def upload_document_try_offline[OF assms] upload_failure_def
      split: option.splits)

theorem upload_document_fails_fast_witness:
  "rag_index offline_state = None
   \<and> upload_document sample_env offline_state [1, 2, 3] ''f.pdf'' 1
       = Some (Inr (UploadFailure
               (''Error processing document: '' @
                ''Pinecone index not available. Please check your Pinecone configuration.'')),
               offline_state)
   \<and> calls offline_state = []"
proof -
  have off: "rag_index offline_state = None"
    by (simp add: offline_state_def)
  have p1: "py_print sample_env (log_line mark_processing (''Processing document: '' @ ''f.pdf''))
              = None"
    by (simp add: py_print_def sample_env_def)
  have p2: "py_print sample_env (log_line mark_error (''Error processing document: '' @
                 ''Pinecone index not available. Please check your Pinecone configuration.''))
              = None"
    by (simp add: py_print_def sample_env_def)
  from upload_document_fails_fast[OF off, of sample_env "[1, 2, 3]" "''f.pdf''" 1] p1 p2
  have "upload_document sample_env offline_state [1, 2, 3] ''f.pdf'' 1
       = Some (Inr (UploadFailure
               (''Error processing document: '' @
                ''Pinecone index not available. Please check your Pinecone configuration.'')),
               offline_state)"
    by auto
  then show ?thesis using off by (simp add: offline_state_def)
qed

section \<open>Answering\<close>

lemma search_documents_no_chunks:
  "indexed_chunks st user_id = [] \<Longrightarrow> fst (search_documents env st query user_id top_k) = []"
  by (auto simp: search_documents_def indexed_chunks_def index_query_def Let_def
      split: option.splits)

text \<open>
  C7: for an owner with no indexed chunk, and for every question (the non-empty ones among
  them), \<^verbatim>\<open>answer_question\<close> returns through its ordinary \<^verbatim>\<open>return\<close> of lines 328 to 332:
  the fixed no-information message, no sources and \<^verbatim>\<open>has_context = False\<close>; the language
  model is not called.
\<close>

theorem answer_question_no_context:
  assumes "indexed_chunks st user_id = []"
  shows "fst (answer_question env st question user_id)
           = \<lparr>answer = no_context_answer, sources = [], has_context = False, chunks_used = None\<rparr>
         \<and> Generate \<notin> set (drop (length (calls st)) (calls (snd (answer_question env st question user_id))))"
proof -
  obtain hits st1 where s: "search_documents env st question user_id 3 = (hits, st1)"
    by (cases "search_documents env st question user_id 3") auto
  have "hits = []"
    using search_documents_no_chunks[OF assms, of env question 3] s by simp
  moreover have "Generate \<notin> set (drop (length (calls st)) (calls st1))"
    using s by (auto simp: search_documents_def Let_def split: option.splits sum.splits)
  ultimately show ?thesis
    using s by (simp add: answer_question_def)
qed

theorem answer_question_no_context_witness:
  "indexed_chunks sample_state 3 = []
   \<and> fst (answer_question sample_env sample_state ''What is the capital of France?'' 3)
       = \<lparr>answer =
            ''I couldn't find any relevant information in your uploaded documents. '' @
            ''Please make sure you've uploaded course materials related to your question.'',
          sources = [], has_context = False, chunks_used = None\<rparr>"
proof -
  have none: "indexed_chunks sample_state 3 = []"
    by (simp add: indexed_chunks_def sample_state_def sample_entry_def)
  show ?thesis
    using answer_question_no_context[OF none, of sample_env "''What is the capital of France?''"]
      none
    by (simp add: no_context_answer_def)
qed

lemma answer_question_with_context:
  assumes "fst (search_documents env st question user_id 3) = hits" and "hits \<noteq> []"
  shows "fst (answer_question env st question user_id)
           = (case generate_content env (make_prompt (make_context hits) question) of
                Inl e \<Rightarrow>
                  \<lparr>answer =
                     ''I apologize, but I encountered an error while processing your question: ''
                       @ str_error e,
                   sources = [], has_context = False, chunks_used = None\<rparr>
              | Inr response_text \<Rightarrow>
                  \<lparr>answer = response_text, sources = map to_source hits, has_context = True,
                   chunks_used = Some (length hits)\<rparr>)"
  using assms
  by (cases "search_documents env st question user_id 3")
    (simp add: answer_question_def Let_def split: sum.splits)

text \<open>
  C6, as stated, fails. On the sample index, whose search for owner 1 has a match: with a
  language model whose response has no text (reading it raises), the answer has
  \<^verbatim>\<open>has_context = False\<close>; with a language model that returns the empty text, the answer is
  the empty text and no apology.
\<close>

theorem answer_question_model_failure_loses_context:
  "fst (search_documents silent_model_env sample_state ''capital?'' 1 3) \<noteq> []
   \<and> has_context (fst (answer_question silent_model_env sample_state ''capital?'' 1)) = False
   \<and> fst (search_documents empty_model_env sample_state ''capital?'' 1 3) \<noteq> []
   \<and> answer (fst (answer_question empty_model_env sample_state ''capital?'' 1)) = []"
  by code_simp

text \<open>
  C6, amended: when retrieval produced matches and the language model call, or the read of
  the text of its response, raises, \<^verbatim>\<open>answer_question\<close> returns as answer the fixed apology
  \<^verbatim>\<open>I apologize, but I encountered an error while processing your question: \<close> followed by
  the text of the error, with no sources and \<^verbatim>\<open>has_context = False\<close>; when the language
  model returns a text, the empty one included, that text is the answer, with
  \<^verbatim>\<open>has_context = True\<close>.
\<close>

theorem answer_question_model_failure:
  assumes "fst (search_documents env st question user_id 3) = hits" and "hits \<noteq> []"
  shows "(generate_content env (make_prompt (make_context hits) question) = Inl e \<longrightarrow>
            fst (answer_question env st question user_id)
              = \<lparr>answer =
                   ''I apologize, but I encountered an error while processing your question: ''
                     @ str_error e,
                 sources = [], has_context = False, chunks_used = None\<rparr>)
       \<and> (generate_content env (make_prompt (make_context hits) question) = Inr response_text \<longrightarrow>
            answer (fst (answer_question env st question user_id)) = response_text
            \<and> has_context (fst (answer_question env st question user_id)) = True)"
  by (simp add: answer_question_with_context[OF assms])

theorem answer_question_model_failure_witness:
  "fst (search_documents silent_model_env sample_state ''capital?'' 1 3)
     = [\<lparr>hit_text = ''The capital of France is Paris.'', hit_filename = ''france.pdf'',
         hit_score = 1, hit_chunk_index = 0\<rparr>]
   \<and> fst (answer_question silent_model_env sample_state ''capital?'' 1)
       = \<lparr>answer =
            ''I apologize, but I encountered an error while processing your question: ''
              @ ''no text in response'',
          sources = [], has_context = False, chunks_used = None\<rparr>"
proof -
  let ?hits = "[\<lparr>hit_text = ''The capital of France is Paris.'', hit_filename = ''france.pdf'',
                 hit_score = 1, hit_chunk_index = 0\<rparr>]"
  have s: "fst (search_documents silent_model_env sample_state ''capital?'' 1 3) = ?hits"
    by code_simp
  have ne: "?hits \<noteq> []" by simp
  have g: "generate_content silent_model_env (make_prompt (make_context ?hits) ''capital?'')
             = Inl (Exception ''no text in response'')"
    by (simp add: silent_model_env_def)
  show ?thesis
    using answer_question_model_failure[OF s ne, of "Exception ''no text in response''"] g s
    by simp
qed

text \<open>
  C9, as stated, fails: the preview of a chunk of 201 characters is not its first 200
  characters but these followed by three dots, 203 characters in all (line 367).
\<close>

theorem answer_question_preview_has_ellipsis:
  "map hit_text (fst (search_documents sample_env long_state ''q'' 1 3))
     = [replicate 201 (CHR ''a'')]
   \<and> map preview (sources (fst (answer_question sample_env long_state ''q'' 1)))
     = [replicate 200 (CHR ''a'') @ ''...'']
   \<and> map preview (sources (fst (answer_question sample_env long_state ''q'' 1)))
     \<noteq> [take 200 (replicate 201 (CHR ''a''))]"
  by code_simp

text \<open>
  C9, amended: for every answer produced from matches, the sources list has one entry per
  match, in order, carrying the match's filename, its similarity score and a bounded
  preview: the chunk's text itself when it has at most 200 characters, else its first 200
  characters followed by \<^verbatim>\<open>...\<close> (so at most 203 characters, starting with the first 200
  of the text).
\<close>

theorem answer_question_sources:
  assumes "fst (search_documents env st question user_id 3) = hits" and "hits \<noteq> []"
    and "generate_content env (make_prompt (make_context hits) question) = Inr response_text"
  shows "length (sources (fst (answer_question env st question user_id))) = length hits
       \<and> (\<forall>i<length hits.
            src_filename (sources (fst (answer_question env st question user_id)) ! i)
              = hit_filename (hits ! i)
          \<and> relevance_score (sources (fst (answer_question env st question user_id)) ! i)
              = hit_score (hits ! i)
          \<and> preview (sources (fst (answer_question env st question user_id)) ! i)
              = (if length (hit_text (hits ! i)) \<le> 200 then hit_text (hits ! i)
                 else take 200 (hit_text (hits ! i)) @ ''...'')
          \<and> length (preview (sources (fst (answer_question env st question user_id)) ! i)) \<le> 203
          \<and> take 200 (preview (sources (fst (answer_question env st question user_id)) ! i))
              = take 200 (hit_text (hits ! i)))"
  by (simp add: answer_question_with_context[OF assms(1,2)] assms(3) to_source_def)

theorem answer_question_sources_witness:
  "fst (search_documents sample_env long_state ''q'' 1 3)
     = [\<lparr>hit_text = replicate 201 (CHR ''a''), hit_filename = ''long.pdf'',
         hit_score = 1, hit_chunk_index = 0\<rparr>]
   \<and> map src_filename (sources (fst (answer_question sample_env long_state ''q'' 1)))
       = [''long.pdf'']
   \<and> preview (sources (fst (answer_question sample_env long_state ''q'' 1)) ! 0)
       = replicate 200 (CHR ''a'') @ ''...''"
proof -
  let ?hits = "[\<lparr>hit_text = replicate 201 (CHR ''a''), hit_filename = ''long.pdf'',
                 hit_score = 1, hit_chunk_index = 0\<rparr>]"
  have s: "fst (search_documents sample_env long_state ''q'' 1 3) = ?hits"
    by code_simp
  have ne: "?hits \<noteq> []" by simp
  have g: "generate_content sample_env (make_prompt (make_context ?hits) ''q'') = Inr ''Paris.''"
    by (simp add: sample_env_def)
  have f: "map src_filename (sources (fst (answer_question sample_env long_state ''q'' 1)))
       = [''long.pdf'']"
    by code_simp
  show ?thesis
    using answer_question_sources[OF s ne g] s f by simp
qed

end
